theory Spec2Isabelle
  imports Main
begin

section \<open>Python string primitives\<close>

text \<open>
  Strings are lists of characters. The development covers ASCII text: a character
  outside ASCII is neither whitespace, nor a digit, nor a word character, and has no
  case. \<open>isspace\<close> is Python's \<^verbatim>\<open>str.isspace\<close> on ASCII (codes 9-13 and 28-32); it is
  also what \<^verbatim>\<open>\s\<close>, \<^verbatim>\<open>strip()\<close> and \<^verbatim>\<open>split()\<close> use.
\<close>

definition isspace :: "char \<Rightarrow> bool" where
  "isspace c = (let n = (of_char c :: nat) in (9 \<le> n \<and> n \<le> 13) \<or> (28 \<le> n \<and> n \<le> 32))"

definition isdigit :: "char \<Rightarrow> bool" where
  "isdigit c = (let n = (of_char c :: nat) in 48 \<le> n \<and> n \<le> 57)"

definition isupper :: "char \<Rightarrow> bool" where
  "isupper c = (let n = (of_char c :: nat) in 65 \<le> n \<and> n \<le> 90)"

definition islower :: "char \<Rightarrow> bool" where
  "islower c = (let n = (of_char c :: nat) in 97 \<le> n \<and> n \<le> 122)"

definition isword :: "char \<Rightarrow> bool" where
  "isword c = (isdigit c \<or> isupper c \<or> islower c \<or> c = CHR ''_'')"

definition lower_char :: "char \<Rightarrow> char" where
  "lower_char c = (if isupper c then char_of (of_char c + (32::nat)) else c)"

definition upper_char :: "char \<Rightarrow> char" where
  "upper_char c = (if islower c then char_of (of_char c - (32::nat)) else c)"

definition lower :: "string \<Rightarrow> string" where
  "lower s = map lower_char s"

definition upper :: "string \<Rightarrow> string" where
  "upper s = map upper_char s"

definition lstrip :: "string \<Rightarrow> string" where
  "lstrip s = dropWhile isspace s"

definition rstrip :: "string \<Rightarrow> string" where
  "rstrip s = rev (dropWhile isspace (rev s))"

definition strip :: "string \<Rightarrow> string" where
  "strip s = rstrip (lstrip s)"

text \<open>\<^verbatim>\<open>s.rstrip('.')\<close>\<close>

definition rstrip_dots :: "string \<Rightarrow> string" where
  "rstrip_dots s = rev (dropWhile (\<lambda>c. c = CHR ''.'') (rev s))"

text \<open>\<^verbatim>\<open>s.split('\n')\<close>: always at least one piece.\<close>

fun split_nl :: "string \<Rightarrow> string list" where
  "split_nl [] = [[]]"
| "split_nl (c # s) =
     (if c = CHR 0x0A then [] # split_nl s
      else (case split_nl s of [] \<Rightarrow> [[c]] | l # ls \<Rightarrow> (c # l) # ls))"

text \<open>\<^verbatim>\<open>s.split()\<close>: the maximal blocks of non-whitespace characters.\<close>

fun split_ws_acc :: "string \<Rightarrow> string \<Rightarrow> string list" where
  "split_ws_acc w [] = (if w = [] then [] else [rev w])"
| "split_ws_acc w (c # s) =
     (if isspace c then (if w = [] then split_ws_acc [] s else rev w # split_ws_acc [] s)
      else split_ws_acc (c # w) s)"

definition split_ws :: "string \<Rightarrow> string list" where
  "split_ws s = split_ws_acc [] s"

text \<open>\<^verbatim>\<open>' '.join(ws)\<close>\<close>

fun join_sp :: "string list \<Rightarrow> string" where
  "join_sp [] = []"
| "join_sp [w] = w"
| "join_sp (w # v # ws) = w @ CHR '' '' # join_sp (v # ws)"

fun startswith :: "string \<Rightarrow> string \<Rightarrow> bool" where
  "startswith s [] = True"
| "startswith [] (c # p) = False"
| "startswith (d # s) (c # p) = (d = c \<and> startswith s p)"

text \<open>\<^verbatim>\<open>p in s\<close> for strings.\<close>

fun contains :: "string \<Rightarrow> string \<Rightarrow> bool" where
  "contains [] p = (p = [])"
| "contains (d # s) p = (startswith (d # s) p \<or> contains s p)"

section \<open>Regular expressions, as Python's \<^verbatim>\<open>re\<close> matches them\<close>

text \<open>
  A backtracking matcher that lists every way a pattern can match at the current
  position, in the order in which Python's engine tries them (greedy repetition: longest
  first; lazy repetition: shortest first; alternation: left first). The head of the list
  is the match Python reports. Repetition is over character classes, which is all the
  patterns of the program need.
\<close>

datatype cls =
    Dot
  | Ch char
  | Digit
  | Space
  | Range char char
  | NotCh char
  | Or cls cls

fun cls_match :: "bool \<Rightarrow> cls \<Rightarrow> char \<Rightarrow> bool" where
  "cls_match ic Dot c = (c \<noteq> CHR 0x0A)"
| "cls_match ic (Ch a) c = (if ic then lower_char c = lower_char a else c = a)"
| "cls_match ic Digit c = isdigit c"
| "cls_match ic Space c = isspace c"
| "cls_match ic (Range a b) c =
     (let inr = (\<lambda>x. (of_char a :: nat) \<le> of_char x \<and> (of_char x :: nat) \<le> of_char b)
      in if ic then inr c \<or> inr (lower_char c) \<or> inr (upper_char c) else inr c)"
| "cls_match ic (NotCh a) c = (if ic then lower_char c \<noteq> lower_char a else c \<noteq> a)"
| "cls_match ic (Or k l) c = (cls_match ic k c \<or> cls_match ic l c)"

datatype rx =
    Eps
  | C cls
  | Seq rx rx
  | Alt rx rx
  | Opt rx
  | Star cls
  | StarLazy cls
  | Grp nat rx
  | Bol
  | Eol
  | Wordb

text \<open>
  A matcher state: the character before the cursor (None at the start of the string),
  the text from the cursor on, and the groups captured so far (latest first).
\<close>

type_synonym mstate = "char option \<times> string \<times> (nat \<times> string) list"

fun star_greedy :: "bool \<Rightarrow> cls \<Rightarrow> char option \<Rightarrow> string \<Rightarrow> (char option \<times> string) list" where
  "star_greedy ic k p [] = [(p, [])]"
| "star_greedy ic k p (c # r) =
     (if cls_match ic k c then star_greedy ic k (Some c) r @ [(p, c # r)] else [(p, c # r)])"

fun star_lazy :: "bool \<Rightarrow> cls \<Rightarrow> char option \<Rightarrow> string \<Rightarrow> (char option \<times> string) list" where
  "star_lazy ic k p [] = [(p, [])]"
| "star_lazy ic k p (c # r) =
     (p, c # r) # (if cls_match ic k c then star_lazy ic k (Some c) r else [])"

definition is_word_before :: "char option \<Rightarrow> bool" where
  "is_word_before p = (case p of None \<Rightarrow> False | Some c \<Rightarrow> isword c)"

definition is_word_after :: "string \<Rightarrow> bool" where
  "is_word_after r = (case r of [] \<Rightarrow> False | c # _ \<Rightarrow> isword c)"

primrec ms :: "bool \<Rightarrow> rx \<Rightarrow> mstate \<Rightarrow> mstate list" where
  "ms ic Eps st = [st]"
| "ms ic (C k) st =
     (case st of (p, r, g) \<Rightarrow>
        (case r of [] \<Rightarrow> [] | c # r' \<Rightarrow> if cls_match ic k c then [(Some c, r', g)] else []))"
| "ms ic (Seq a b) st = concat (map (ms ic b) (ms ic a st))"
| "ms ic (Alt a b) st = ms ic a st @ ms ic b st"
| "ms ic (Opt a) st = ms ic a st @ [st]"
| "ms ic (Star k) st =
     (case st of (p, r, g) \<Rightarrow> map (\<lambda>(p', r'). (p', r', g)) (star_greedy ic k p r))"
| "ms ic (StarLazy k) st =
     (case st of (p, r, g) \<Rightarrow> map (\<lambda>(p', r'). (p', r', g)) (star_lazy ic k p r))"
| "ms ic (Grp n a) st =
     (case st of (p, r, g) \<Rightarrow>
        map (\<lambda>(p', r', g'). (p', r', (n, take (length r - length r') r) # g')) (ms ic a st))"
| "ms ic Bol st = (case st of (p, r, g) \<Rightarrow> if p = None then [st] else [])"
| "ms ic Eol st = (case st of (p, r, g) \<Rightarrow> if r = [] \<or> r = [CHR 0x0A] then [st] else [])"
| "ms ic Wordb st =
     (case st of (p, r, g) \<Rightarrow> if is_word_before p \<noteq> is_word_after r then [st] else [])"

definition seqs :: "rx list \<Rightarrow> rx" where
  "seqs rs = foldr Seq rs Eps"

definition lit :: "string \<Rightarrow> rx" where
  "lit s = seqs (map (\<lambda>c. C (Ch c)) s)"

definition plus :: "cls \<Rightarrow> rx" where
  "plus k = Seq (C k) (Star k)"

definition plus_lazy :: "cls \<Rightarrow> rx" where
  "plus_lazy k = Seq (C k) (StarLazy k)"

text \<open>
  A match: where it starts, the text it covers, and its groups.
\<close>

record rmatch =
  m_start :: nat
  m_text :: string
  m_groups :: "(nat \<times> string) list"

definition group :: "rmatch \<Rightarrow> nat \<Rightarrow> string option" where
  "group m n = map_of (m_groups m) n"

text \<open>The first match of the pattern with the cursor at this place, if any.\<close>

definition match_here :: "bool \<Rightarrow> rx \<Rightarrow> nat \<Rightarrow> char option \<Rightarrow> string \<Rightarrow> (rmatch \<times> char option \<times> string) option" where
  "match_here ic re off p s =
     (case ms ic re (p, s, []) of
        [] \<Rightarrow> None
      | (p', r', g) # _ \<Rightarrow>
          Some (\<lparr>m_start = off, m_text = take (length s - length r') s, m_groups = g\<rparr>, p', r'))"

text \<open>\<^verbatim>\<open>re.match(pattern, s)\<close>\<close>

definition re_match :: "bool \<Rightarrow> rx \<Rightarrow> string \<Rightarrow> rmatch option" where
  "re_match ic re s = map_option fst (match_here ic re 0 None s)"

text \<open>\<^verbatim>\<open>re.search(pattern, s)\<close>: the first position, from the left, at which the pattern matches.\<close>

fun search_from :: "bool \<Rightarrow> rx \<Rightarrow> nat \<Rightarrow> char option \<Rightarrow> string \<Rightarrow> rmatch option" where
  "search_from ic re off p [] = map_option fst (match_here ic re off p [])"
| "search_from ic re off p (c # s) =
     (case match_here ic re off p (c # s) of
        Some (m, _) \<Rightarrow> Some m
      | None \<Rightarrow> search_from ic re (Suc off) (Some c) s)"

definition re_search :: "bool \<Rightarrow> rx \<Rightarrow> string \<Rightarrow> rmatch option" where
  "re_search ic re s = search_from ic re 0 None s"

section \<open>The document model\<close>

text \<open>
  A run carries its text, its bold attribute (read for truth, so an inherited or unset
  attribute counts as not bold) and, for each \<^verbatim>\<open>a:blip\<close> element under it, the value of
  the \<^verbatim>\<open>embed\<close> attribute when it has one. A paragraph is its runs, with a flag telling
  whether the paragraph element contains a \<^verbatim>\<open>pic:pic\<close> element. The text of a paragraph is
  the concatenation of the texts of its runs.
\<close>

record run =
  run_text :: string
  run_bold :: bool
  run_blips :: "string option list"

record para =
  runs :: "run list"
  has_pic :: bool

type_synonym document = "para list"

definition para_text :: "para \<Rightarrow> string" where
  "para_text para = concat (map run_text (runs para))"

record image_info =
  img_name :: string
  img_bytes :: "nat list"
  img_mime :: string
  img_size :: nat
  img_width :: nat
  img_height :: nat

record mc_option =
  opt_text :: string
  opt_correct :: bool

record mc_question =
  mc_question_text :: string
  mc_options :: "mc_option list"
  mc_image_id :: "string option"

record tf_question =
  tf_question_text :: string
  tf_correct_answer :: string

record crossword_clue =
  clue_orientation :: string
  clue_clue :: string
  clue_answer :: string

record crossword =
  cw_title :: string
  cw_clues :: "crossword_clue list"

text \<open>The converter object: \<^verbatim>\<open>CompleteH5PConverter\<close>.\<close>

record converter =
  multiple_choice_questions :: "mc_question list"
  true_false_questions :: "tf_question list"
  crossword_puzzles :: "crossword list"
  images :: "string \<rightharpoonup> image_info"
  shared_image_id :: "string option"

text \<open>\<^verbatim>\<open>__init__\<close> and \<^verbatim>\<open>reset\<close> leave the converter in this state.\<close>

definition reset :: converter where
  "reset = \<lparr>multiple_choice_questions = [], true_false_questions = [],
     crossword_puzzles = [], images = Map.empty, shared_image_id = None\<rparr>"

text \<open>Python's truth value of an optional string: None and the empty string are false.\<close>

definition truthy :: "string option \<Rightarrow> bool" where
  "truthy x = (case x of None \<Rightarrow> False | Some v \<Rightarrow> v \<noteq> [])"

section \<open>Images near a paragraph\<close>

text \<open>
  The embed id a run gives: that of its first blip, when the run has a blip and the
  attribute is present and not empty.
\<close>

definition run_embed :: "run \<Rightarrow> string option" where
  "run_embed r =
     (case run_blips r of
        [] \<Rightarrow> None
      | b # _ \<Rightarrow> (case b of None \<Rightarrow> None | Some e \<Rightarrow> if e = [] then None else Some e))"

fun first_embed :: "run list \<Rightarrow> string option" where
  "first_embed [] = None"
| "first_embed (r # rs) = (case run_embed r of Some e \<Rightarrow> Some e | None \<Rightarrow> first_embed rs)"

definition para_image :: "para \<Rightarrow> string option" where
  "para_image para = (if has_pic para then first_embed (runs para) else None)"

fun scan_images :: "document \<Rightarrow> nat list \<Rightarrow> string option" where
  "scan_images doc [] = None"
| "scan_images doc (idx # idxs) =
     (case para_image (doc ! idx) of Some e \<Rightarrow> Some e | None \<Rightarrow> scan_images doc idxs)"

text \<open>
  \<^verbatim>\<open>range(max(0, para_index - 5), min(len(doc.paragraphs), para_index + 3))\<close>: every index
  of the range is below the length of the document, so the read \<open>doc ! idx\<close> is in range.
\<close>

definition search_range :: "document \<Rightarrow> nat \<Rightarrow> nat list" where
  "search_range doc para_index =
     [nat (max 0 (int para_index - 5)) ..< min (length doc) (para_index + 3)]"

definition find_image_near_paragraph :: "document \<Rightarrow> nat \<Rightarrow> string option" where
  "find_image_near_paragraph doc para_index = scan_images doc (search_range doc para_index)"

section \<open>Multiple-choice extraction\<close>

text \<open>\<^verbatim>\<open>Activity\s*1.*quiz\<close>, \<^verbatim>\<open>quiz.*question\<close> and \<^verbatim>\<open>Activity\s*[2-9]\<close>, all with IGNORECASE.\<close>

definition rx_activity1_quiz :: rx where
  "rx_activity1_quiz = seqs [lit ''Activity'', Star Space, lit ''1'', Star Dot, lit ''quiz'']"

definition rx_quiz_question :: rx where
  "rx_quiz_question = seqs [lit ''quiz'', Star Dot, lit ''question'']"

definition rx_activity_2_9 :: rx where
  "rx_activity_2_9 = seqs [lit ''Activity'', Star Space, C (Range CHR ''2'' CHR ''9'')]"

text \<open>\<^verbatim>\<open>^(\d+)\.\s*(.+?)\?\s*$\<close>\<close>

definition rx_question :: rx where
  "rx_question = seqs [Bol, Grp 1 (plus Digit), C (Ch CHR ''.''), Star Space,
     Grp 2 (plus_lazy Dot), C (Ch CHR ''?''), Star Space, Eol]"

text \<open>\<^verbatim>\<open>^([A-D])\.\s\<close> and \<^verbatim>\<open>^([A-D])\.\s+(.+)$\<close>\<close>

definition rx_option_start :: rx where
  "rx_option_start = seqs [Bol, Grp 1 (C (Range CHR ''A'' CHR ''D'')), C (Ch CHR ''.''), C Space]"

definition rx_option_line :: rx where
  "rx_option_line = seqs [Bol, Grp 1 (C (Range CHR ''A'' CHR ''D'')), C (Ch CHR ''.''),
     plus Space, Grp 2 (plus Dot), Eol]"

definition mc_section_entry :: "string \<Rightarrow> bool" where
  "mc_section_entry t =
     (re_search True rx_activity1_quiz t \<noteq> None \<or> re_search True rx_quiz_question t \<noteq> None)"

definition mc_section_exit :: "string \<Rightarrow> bool" where
  "mc_section_exit t = (re_search True rx_activity_2_9 t \<noteq> None)"

text \<open>
  The inner \<^verbatim>\<open>while\<close> of the run loop: leave the lines the cursor has run past. The
  position is set to 0 at each line left, whatever it was.
\<close>

function advance_line :: "string list \<Rightarrow> nat \<Rightarrow> nat \<Rightarrow> nat \<times> nat" where
  "advance_line lines current_line current_pos =
     (if current_line < length lines then
        (if current_pos < length (lines ! current_line) then (current_line, current_pos)
         else advance_line lines (current_line + 1) 0)
      else (current_line, current_pos))"
  by pat_completeness auto
termination
  by (relation "measure (\<lambda>(lines, current_line, current_pos). length lines - current_line)") auto

declare advance_line.simps [simp del]

text \<open>
  One turn of \<^verbatim>\<open>for run in para.runs\<close>. The state is the cursor and
  \<^verbatim>\<open>option_runs_map\<close>, the runs registered under each option letter.
\<close>

type_synonym run_map_state = "nat \<times> nat \<times> (string \<rightharpoonup> run list)"

definition map_run :: "string list \<Rightarrow> run_map_state \<Rightarrow> run \<Rightarrow> run_map_state" where
  "map_run lines st r =
     (case st of (current_line0, current_pos0, option_runs_map) \<Rightarrow>
        (case advance_line lines current_line0 current_pos0 of (current_line, current_pos) \<Rightarrow>
           let option_runs_map' =
             (if current_line < length lines then
                (case re_match False rx_option_start (lines ! current_line) of
                   None \<Rightarrow> option_runs_map
                 | Some m \<Rightarrow>
                     (case group m 1 of
                        None \<Rightarrow> option_runs_map
                      | Some option_letter \<Rightarrow>
                          option_runs_map(option_letter \<mapsto>
                            (case option_runs_map option_letter of
                               None \<Rightarrow> [r] | Some rs \<Rightarrow> rs @ [r]))))
              else option_runs_map)
           in (current_line, current_pos + length (run_text r), option_runs_map')))"

definition map_runs :: "string list \<Rightarrow> run list \<Rightarrow> (string \<rightharpoonup> run list)" where
  "map_runs lines rs = snd (snd (foldl (map_run lines) (0, 0, Map.empty) rs))"

text \<open>
  \<^verbatim>\<open>any(run.bold for run in option_runs_map[option_letter] if run.text.strip())\<close>
\<close>

definition any_bold :: "run list \<Rightarrow> bool" where
  "any_bold rs = list_ex (\<lambda>r. strip (run_text r) \<noteq> [] \<and> run_bold r) rs"

text \<open>The option a line gives, if it is an option line.\<close>

definition option_of_line :: "(string \<rightharpoonup> run list) \<Rightarrow> string \<Rightarrow> mc_option option" where
  "option_of_line option_runs_map line =
     (case re_match False rx_option_line line of
        None \<Rightarrow> None
      | Some m \<Rightarrow>
          (case (group m 1, group m 2) of
             (Some option_letter, Some g2) \<Rightarrow>
               Some \<lparr>opt_text = rstrip_dots (strip g2),
                     opt_correct = (case option_runs_map option_letter of
                                      None \<Rightarrow> False | Some rs \<Rightarrow> any_bold rs)\<rparr>
           | _ \<Rightarrow> None))"

text \<open>\<^verbatim>\<open>for line in lines[1:]\<close>\<close>

definition collect_options :: "(string \<rightharpoonup> run list) \<Rightarrow> string list \<Rightarrow> mc_option list" where
  "collect_options option_runs_map lines =
     List.map_filter (option_of_line option_runs_map) (drop 1 lines)"

text \<open>
  The local variables of \<^verbatim>\<open>extract_multiple_choice_questions\<close> together with the
  converter.
\<close>

record mc_loop =
  in_mc_section :: bool
  section_image_id :: "string option"
  questions_in_current_section :: "nat list"
  mc_conv :: converter

text \<open>
  What a paragraph inside the section adds: the question text and the options, when the
  first line is a numbered question, there is a further line, and some line gives an
  option.
\<close>

definition parse_question :: "para \<Rightarrow> string \<Rightarrow> (string \<times> mc_option list) option" where
  "parse_question para t =
     (let lines = split_nl t;
          first_line = (case lines of [] \<Rightarrow> [] | l # _ \<Rightarrow> l)
      in case re_match False rx_question first_line of
           None \<Rightarrow> None
         | Some question_match \<Rightarrow>
             if length lines > 1 then
               (case group question_match 2 of
                  None \<Rightarrow> None
                | Some g2 \<Rightarrow>
                    let question_text = strip g2 @ ''?'';
                        option_runs_map = map_runs lines (runs para);
                        options = collect_options option_runs_map lines
                    in if options \<noteq> [] then Some (question_text, options) else None)
             else None)"

text \<open>One turn of \<^verbatim>\<open>for idx, para in enumerate(doc.paragraphs)\<close>.\<close>

definition mc_step :: "document \<Rightarrow> mc_loop \<Rightarrow> nat \<times> para \<Rightarrow> mc_loop" where
  "mc_step doc st ip =
     (case ip of (idx, para) \<Rightarrow>
        let t = strip (para_text para) in
        if t = [] then st
        else if mc_section_entry t then
          st\<lparr>in_mc_section := True, section_image_id := find_image_near_paragraph doc idx\<rparr>
        else if mc_section_exit t \<and> in_mc_section st then
          (let st' = st\<lparr>in_mc_section := False\<rparr> in
           if truthy (section_image_id st) \<and> questions_in_current_section st \<noteq> [] then
             st'\<lparr>mc_conv := (mc_conv st)\<lparr>shared_image_id := section_image_id st\<rparr>\<rparr>
           else st')
        else if \<not> in_mc_section st then st
        else
          (case parse_question para t of
             None \<Rightarrow> st
           | Some (question_text, options) \<Rightarrow>
               let question_image_id =
                     (if truthy (find_image_near_paragraph doc idx)
                      then find_image_near_paragraph doc idx else section_image_id st);
                   qs = multiple_choice_questions (mc_conv st) @
                          [\<lparr>mc_question_text = question_text, mc_options = options,
                            mc_image_id = question_image_id\<rparr>]
               in st\<lparr>questions_in_current_section :=
                        questions_in_current_section st @ [length qs - 1],
                      mc_conv := (mc_conv st)\<lparr>multiple_choice_questions := qs\<rparr>\<rparr>))"

text \<open>
  The whole pass. The image table is read from the package by
  \<^verbatim>\<open>extract_images_from_docx\<close>, outside this development, and is a parameter here.
\<close>

definition mc_init :: "(string \<rightharpoonup> image_info) \<Rightarrow> converter \<Rightarrow> mc_loop" where
  "mc_init imgs cv = \<lparr>in_mc_section = False, section_image_id = None,
     questions_in_current_section = [], mc_conv = cv\<lparr>images := imgs\<rparr>\<rparr>"

definition extract_multiple_choice_questions ::
  "document \<Rightarrow> (string \<rightharpoonup> image_info) \<Rightarrow> converter \<Rightarrow> converter" where
  "extract_multiple_choice_questions doc imgs cv =
     mc_conv (foldl (mc_step doc) (mc_init imgs cv) (enumerate 0 doc))"

section \<open>True/False extraction\<close>

text \<open>
  \<^verbatim>\<open>re.finditer\<close>: the matches from left to right, each search starting where the last
  match ended. The pattern it is used with below never matches the empty string; after an
  empty match this scan moves one character on.
\<close>

function finditer_from :: "bool \<Rightarrow> rx \<Rightarrow> nat \<Rightarrow> char option \<Rightarrow> string \<Rightarrow> rmatch list" where
  "finditer_from ic re off p s =
     (case match_here ic re off p s of
        Some (m, p', r') \<Rightarrow>
          (if length r' < length s then
             m # finditer_from ic re (off + (length s - length r')) p' r'
           else (case s of [] \<Rightarrow> [m]
                 | c # s' \<Rightarrow> m # finditer_from ic re (Suc off) (Some c) s'))
      | None \<Rightarrow>
          (case s of [] \<Rightarrow> []
           | c # s' \<Rightarrow> finditer_from ic re (Suc off) (Some c) s'))"
  by pat_completeness auto
termination
  by (relation "measure (\<lambda>(ic, re, off, p, s). length s)") auto

declare finditer_from.simps [simp del]

definition finditer :: "bool \<Rightarrow> rx \<Rightarrow> string \<Rightarrow> rmatch list" where
  "finditer ic re s = finditer_from ic re 0 None s"

text \<open>\<^verbatim>\<open>extract_text_with_formatting\<close>: the runs that are not blank, as (text, bold).\<close>

definition extract_text_with_formatting :: "para \<Rightarrow> (string \<times> bool) list" where
  "extract_text_with_formatting para =
     map (\<lambda>r. (run_text r, run_bold r)) (filter (\<lambda>r. strip (run_text r) \<noteq> []) (runs para))"

text \<open>\<^verbatim>\<open>\b(true|false)\s*$\<close> and \<^verbatim>\<open>\*\*(true|false)\*\*\s*$\<close>, with IGNORECASE.\<close>

definition rx_tf_end :: rx where
  "rx_tf_end = seqs [Wordb, Grp 1 (Alt (lit ''true'') (lit ''false'')), Star Space, Eol]"

definition rx_tf_end_starred :: rx where
  "rx_tf_end_starred = seqs [lit ''**'', Grp 1 (Alt (lit ''true'') (lit ''false'')), lit ''**'',
     Star Space, Eol]"

definition is_true_false_question :: "string \<Rightarrow> bool" where
  "is_true_false_question t =
     (let clean_text = strip t
      in re_search True rx_tf_end clean_text \<noteq> None
         \<or> re_search True rx_tf_end_starred clean_text \<noteq> None)"

text \<open>\<^verbatim>\<open>\b(True|False)\b\<close>, with IGNORECASE.\<close>

definition rx_true_false :: rx where
  "rx_true_false = seqs [Wordb, Grp 1 (Alt (lit ''True'') (lit ''False'')), Wordb]"

text \<open>
  The loop that looks for the run holding the answer: the bold attribute of the first
  part whose span holds \<open>answer_start\<close>, and False when no part does.
\<close>

fun bold_at :: "(string \<times> bool) list \<Rightarrow> nat \<Rightarrow> nat \<Rightarrow> bool" where
  "bold_at [] current_pos answer_start = False"
| "bold_at ((t, b) # parts) current_pos answer_start =
     (if current_pos \<le> answer_start \<and> answer_start < current_pos + length t then b
      else bold_at parts (current_pos + length t) answer_start)"

text \<open>
  The text that \<^verbatim>\<open>parse_true_false_from_runs\<close> searches, \<^verbatim>\<open>full_text\<close>: the texts of
  the runs that are not blank, joined; and the matches of the pattern in it, from left to
  right.
\<close>

definition full_text :: "para \<Rightarrow> string" where
  "full_text para = concat (map fst (extract_text_with_formatting para))"

definition tf_matches :: "para \<Rightarrow> rmatch list" where
  "tf_matches para = finditer True rx_true_false (full_text para)"

text \<open>
  \<^verbatim>\<open>parse_true_false_from_runs\<close>. The result \<^verbatim>\<open>(None, None)\<close> is None here; otherwise
  the pair (question text, correct answer).
\<close>

definition parse_true_false_from_runs :: "para \<Rightarrow> (string \<times> string) option" where
  "parse_true_false_from_runs para =
     (let formatted_parts = extract_text_with_formatting para;
          matches = tf_matches para
      in if matches = [] then None
         else
           (let last_match = last matches;
                answer_start = m_start last_match
            in case group last_match 1 of
                 None \<Rightarrow> None
               | Some answer_text \<Rightarrow>
                   let is_bold = bold_at formatted_parts 0 answer_start;
                       question_text = strip (take answer_start (full_text para));
                       correct_answer =
                         (if is_bold then lower answer_text
                          else if lower answer_text = ''true'' then ''false'' else ''true'')
                   in Some (question_text, correct_answer)))"

record tf_loop =
  in_true_false_section :: bool
  tf_conv :: converter

definition tf_section_entry :: "string \<Rightarrow> bool" where
  "tf_section_entry t = (contains (lower t) ''true or false'' \<or> contains (lower t) ''true/false'')"

definition tf_section_exit :: "string \<Rightarrow> bool" where
  "tf_section_exit t =
     (startswith t ''**''
      \<and> (contains (lower t) ''activity'' \<or> contains (lower t) ''quiz'')
      \<and> \<not> contains (lower t) ''true'' \<and> \<not> contains (lower t) ''false'')"

text \<open>One turn of \<^verbatim>\<open>for i, para in enumerate(doc.paragraphs)\<close>.\<close>

definition tf_step :: "tf_loop \<Rightarrow> para \<Rightarrow> tf_loop" where
  "tf_step st para =
     (let t = strip (para_text para) in
      if t = [] then st
      else if tf_section_entry t then st\<lparr>in_true_false_section := True\<rparr>
      else if in_true_false_section st \<and> tf_section_exit t then
        st\<lparr>in_true_false_section := False\<rparr>
      else if in_true_false_section st \<and> is_true_false_question t then
        (case parse_true_false_from_runs para of
           None \<Rightarrow> st
         | Some (question_text, correct_answer) \<Rightarrow>
             if question_text \<noteq> [] \<and> correct_answer \<noteq> [] then
               st\<lparr>tf_conv := (tf_conv st)\<lparr>true_false_questions :=
                     true_false_questions (tf_conv st) @
                       [\<lparr>tf_question_text = question_text,
                         tf_correct_answer = correct_answer\<rparr>]\<rparr>\<rparr>
             else st)
      else st)"

definition tf_init :: "converter \<Rightarrow> tf_loop" where
  "tf_init cv = \<lparr>in_true_false_section = False, tf_conv = cv\<rparr>"

definition extract_true_false_questions :: "document \<Rightarrow> converter \<Rightarrow> converter" where
  "extract_true_false_questions doc cv = tf_conv (foldl tf_step (tf_init cv) doc)"

section \<open>Crossword extraction\<close>

text \<open>
  \<^verbatim>\<open>Activity\s*3,?\s*Part\s+(I+)[-\s]*Crossword\s*Puzzle:?(.*)$\<close>, \<^verbatim>\<open>Unit\s*2\<close> and
  \<^verbatim>\<open>Activity\s*4\<close>, searched with IGNORECASE.
\<close>

definition rx_crossword_header :: rx where
  "rx_crossword_header = seqs [lit ''Activity'', Star Space, lit ''3'', Opt (C (Ch CHR '','')),
     Star Space, lit ''Part'', plus Space, Grp 1 (plus (Ch CHR ''I'')),
     Star (Or (Ch CHR ''-'') Space), lit ''Crossword'', Star Space, lit ''Puzzle'',
     Opt (C (Ch CHR '':'')), Grp 2 (Star Dot), Eol]"

definition rx_unit_2 :: rx where
  "rx_unit_2 = seqs [lit ''Unit'', Star Space, lit ''2'']"

definition rx_activity_4 :: rx where
  "rx_activity_4 = seqs [lit ''Activity'', Star Space, lit ''4'']"

text \<open>\<^verbatim>\<open>^Clues?:?\s*$\<close> and \<^verbatim>\<open>^(Across|Down)\<close>, with IGNORECASE.\<close>

definition rx_clues_marker :: rx where
  "rx_clues_marker = seqs [Bol, lit ''Clue'', Opt (C (Ch CHR ''s'')), Opt (C (Ch CHR '':'')),
     Star Space, Eol]"

definition rx_orientation :: rx where
  "rx_orientation = seqs [Bol, Grp 1 (Alt (lit ''Across'') (lit ''Down''))]"

text \<open>
  \<^verbatim>\<open>^(\d+)\.\s+(.+)$\<close>, \<^verbatim>\<open>^(\d+)\.\s+(.+?)(?:\s*\(([^)]+)\))?\s*$\<close> and
  \<^verbatim>\<open>^[A-Z][A-Z\s-]+$\<close>, case-sensitive.
\<close>

definition rx_inline_clue :: rx where
  "rx_inline_clue = seqs [Bol, Grp 1 (plus Digit), C (Ch CHR ''.''), plus Space,
     Grp 2 (plus Dot), Eol]"

definition rx_numbered_clue :: rx where
  "rx_numbered_clue = seqs [Bol, Grp 1 (plus Digit), C (Ch CHR ''.''), plus Space,
     Grp 2 (plus_lazy Dot),
     Opt (seqs [Star Space, C (Ch CHR ''(''), Grp 3 (plus (NotCh CHR '')'')), C (Ch CHR '')'')]),
     Star Space, Eol]"

definition rx_all_caps :: rx where
  "rx_all_caps = seqs [Bol, C (Range CHR ''A'' CHR ''Z''),
     plus (Or (Range CHR ''A'' CHR ''Z'') (Or Space (Ch CHR ''-''))), Eol]"

definition cw_section_entry :: "string \<Rightarrow> bool" where
  "cw_section_entry t = (re_search True rx_crossword_header t \<noteq> None)"

definition cw_section_exit :: "string \<Rightarrow> bool" where
  "cw_section_exit t =
     (re_search True rx_unit_2 t \<noteq> None \<or> re_search True rx_activity_4 t \<noteq> None)"

text \<open>The local variables of \<^verbatim>\<open>extract_crossword_puzzles\<close>.\<close>

record cw_loop =
  crosswords :: "crossword list"
  current_crossword :: "crossword option"
  current_orientation :: "string option"
  in_crossword_section :: bool
  collecting_clues :: bool
  clue_counter :: nat
  cursor :: nat

text \<open>
  \<^verbatim>\<open>if current_crossword and current_crossword.get('clues'): crosswords.append(...)\<close>
\<close>

definition flush :: "cw_loop \<Rightarrow> crossword list" where
  "flush st =
     (case current_crossword st of
        None \<Rightarrow> crosswords st
      | Some cw \<Rightarrow> if cw_clues cw \<noteq> [] then crosswords st @ [cw] else crosswords st)"

definition has_clues :: "crossword option \<Rightarrow> bool" where
  "has_clues c = (case c of None \<Rightarrow> False | Some cw \<Rightarrow> cw_clues cw \<noteq> [])"

definition add_clue :: "crossword_clue \<Rightarrow> cw_loop \<Rightarrow> cw_loop" where
  "add_clue c st =
     st\<lparr>current_crossword :=
          map_option (\<lambda>cw. cw\<lparr>cw_clues := cw_clues cw @ [c]\<rparr>) (current_crossword st)\<rparr>"

text \<open>
  The bold runs of a paragraph, stripped and in upper case; for the clues written on the
  orientation line only those longer than two characters.
\<close>

definition bold_answers :: "para \<Rightarrow> string list" where
  "bold_answers para =
     map (\<lambda>r. upper (strip (run_text r)))
       (filter (\<lambda>r. run_bold r \<and> strip (run_text r) \<noteq> [] \<and> length (strip (run_text r)) > 2)
          (runs para))"

definition bold_parts :: "para \<Rightarrow> string list" where
  "bold_parts para =
     map (\<lambda>r. upper (strip (run_text r)))
       (filter (\<lambda>r. run_bold r \<and> strip (run_text r) \<noteq> []) (runs para))"

text \<open>The clues written on the orientation line itself, one line of the rest at a time.\<close>

definition inline_clues :: "para \<Rightarrow> string \<Rightarrow> string \<Rightarrow> crossword_clue list" where
  "inline_clues para orientation line =
     (case re_match False rx_inline_clue (strip line) of
        None \<Rightarrow> []
      | Some m \<Rightarrow>
          (case group m 2 of
             None \<Rightarrow> []
           | Some g2 \<Rightarrow>
               map (\<lambda>answer. \<lparr>clue_orientation = orientation, clue_clue = strip g2,
                               clue_answer = join_sp (split_ws answer)\<rparr>)
                 (bold_answers para)))"

text \<open>The branch taken at a crossword header.\<close>

definition cw_header :: "rmatch \<Rightarrow> cw_loop \<Rightarrow> cw_loop" where
  "cw_header crossword_match st =
     (let part_num = (case group crossword_match 1 of None \<Rightarrow> [] | Some g \<Rightarrow> g);
          title_suffix = strip (case group crossword_match 2 of None \<Rightarrow> [] | Some g \<Rightarrow> g);
          full_title = ''Activity 3, Part '' @ part_num @ '' - Crossword Puzzle'' @
                         (if title_suffix \<noteq> [] then '': '' @ title_suffix else [])
      in st\<lparr>crosswords := flush st,
            current_crossword := Some \<lparr>cw_title = full_title, cw_clues = []\<rparr>,
            current_orientation := None,
            in_crossword_section := True,
            collecting_clues := False,
            clue_counter := 1,
            cursor := cursor st + 1\<rparr>)"

text \<open>The branch taken at \<^verbatim>\<open>Unit 2\<close> or \<^verbatim>\<open>Activity 4\<close>.\<close>

definition cw_exit :: "cw_loop \<Rightarrow> cw_loop" where
  "cw_exit st =
     (if has_clues (current_crossword st) then
        st\<lparr>crosswords := flush st, current_crossword := None,
           in_crossword_section := False, cursor := cursor st + 1\<rparr>
      else st\<lparr>in_crossword_section := False, cursor := cursor st + 1\<rparr>)"

text \<open>The branch taken at a paragraph that begins with \<^verbatim>\<open>Across\<close> or \<^verbatim>\<open>Down\<close>.\<close>

definition cw_orientation :: "para \<Rightarrow> string \<Rightarrow> rmatch \<Rightarrow> cw_loop \<Rightarrow> cw_loop" where
  "cw_orientation para t orientation_match st =
     (let orientation = lower (case group orientation_match 1 of None \<Rightarrow> [] | Some g \<Rightarrow> g);
          rest_of_text = strip (drop (length (m_text orientation_match)) t);
          new_clues = (if rest_of_text \<noteq> []
                       then concat (map (inline_clues para orientation) (split_nl rest_of_text))
                       else [])
      in (foldl (\<lambda>s c. add_clue c s) st new_clues)
           \<lparr>current_orientation := Some orientation,
            collecting_clues := True,
            clue_counter := 1,
            cursor := cursor st + 1\<rparr>)"

text \<open>Pattern 1: a numbered clue, answered by the next paragraph in capitals.\<close>

definition cw_pattern1 :: "document \<Rightarrow> rmatch \<Rightarrow> cw_loop \<Rightarrow> cw_loop" where
  "cw_pattern1 doc clue_pattern st =
     (let i = cursor st;
          clue_text = strip (case group clue_pattern 2 of None \<Rightarrow> [] | Some g \<Rightarrow> g)
      in if i + 1 < length doc then
           (let next_text = strip (para_text (doc ! (i + 1)))
            in if re_match False rx_all_caps next_text \<noteq> None then
                 (add_clue \<lparr>clue_orientation = (case current_orientation st of
                                                    None \<Rightarrow> [] | Some orientation \<Rightarrow> orientation),
                             clue_clue = clue_text,
                             clue_answer = join_sp (split_ws next_text)\<rparr> st)
                   \<lparr>cursor := i + 2\<rparr>
               else st\<lparr>cursor := i + 1\<rparr>)
         else st\<lparr>cursor := i + 1\<rparr>)"

text \<open>Pattern 2: a clue with a parenthesis, answered by the first bold run of the next paragraph.\<close>

definition cw_pattern2 :: "document \<Rightarrow> string \<Rightarrow> cw_loop \<Rightarrow> cw_loop" where
  "cw_pattern2 doc t st =
     (let i = cursor st in
      if contains t ''('' \<and> contains t '')'' then
        (if i + 1 < length doc then
           (case bold_parts (doc ! (i + 1)) of
              [] \<Rightarrow> st\<lparr>cursor := i + 1\<rparr>
            | b # _ \<Rightarrow>
                if re_match False rx_all_caps b \<noteq> None then
                  (add_clue \<lparr>clue_orientation = (case current_orientation st of
                                                     None \<Rightarrow> [] | Some orientation \<Rightarrow> orientation),
                              clue_clue = strip t,
                              clue_answer = join_sp (split_ws b)\<rparr> st)
                    \<lparr>clue_counter := clue_counter st + 1, cursor := i + 2\<rparr>
                else st\<lparr>cursor := i + 1\<rparr>)
         else st\<lparr>cursor := i + 1\<rparr>)
      else st\<lparr>cursor := i + 1\<rparr>)"

text \<open>
  One turn of \<^verbatim>\<open>while i < len(doc.paragraphs)\<close>; it is taken only with the cursor inside
  the document. The test for an orientation line is \<^verbatim>\<open>re.search\<close> with a pattern that
  begins with \<^verbatim>\<open>^\<close>, and the match read afterwards is \<^verbatim>\<open>re.match\<close> with the same pattern:
  both find the same match (lemma \<open>re_search_Bol\<close> below), so one call stands for the two.
\<close>

definition cw_step :: "document \<Rightarrow> cw_loop \<Rightarrow> cw_loop" where
  "cw_step doc st =
     (let i = cursor st; para = doc ! i; t = strip (para_text para) in
      if t = [] then st\<lparr>cursor := i + 1\<rparr>
      else
        (case re_search True rx_crossword_header t of
           Some crossword_match \<Rightarrow> cw_header crossword_match st
         | None \<Rightarrow>
             if cw_section_exit t then cw_exit st
             else if \<not> in_crossword_section st \<or> current_crossword st = None then
               st\<lparr>cursor := i + 1\<rparr>
             else if re_match True rx_clues_marker t \<noteq> None then
               st\<lparr>collecting_clues := True, cursor := i + 1\<rparr>
             else
               (case re_match True rx_orientation t of
                  Some orientation_match \<Rightarrow> cw_orientation para t orientation_match st
                | None \<Rightarrow>
                    if \<not> collecting_clues st \<or> \<not> truthy (current_orientation st) then
                      st\<lparr>cursor := i + 1\<rparr>
                    else
                      (case re_match False rx_numbered_clue t of
                         Some clue_pattern \<Rightarrow> cw_pattern1 doc clue_pattern st
                       | None \<Rightarrow> cw_pattern2 doc t st))))"

lemma cursor_add_clue [simp]: "cursor (add_clue c st) = cursor st"
  by (simp add: add_clue_def)

lemma cursor_cw_header: "cursor st < cursor (cw_header m st)"
  by (simp add: cw_header_def Let_def)

lemma cursor_cw_exit: "cursor st < cursor (cw_exit st)"
  by (simp add: cw_exit_def)

lemma cursor_cw_orientation: "cursor st < cursor (cw_orientation para t m st)"
  by (simp add: cw_orientation_def Let_def)

lemma cursor_cw_pattern1: "cursor st < cursor (cw_pattern1 doc m st)"
  by (simp add: cw_pattern1_def Let_def)

lemma cursor_cw_pattern2: "cursor st < cursor (cw_pattern2 doc t st)"
  by (simp add: cw_pattern2_def Let_def split: list.split)

lemma cursor_cw_step: "cursor st < cursor (cw_step doc st)"
  by (simp add: cw_step_def Let_def cursor_cw_header cursor_cw_exit cursor_cw_orientation
      cursor_cw_pattern1 cursor_cw_pattern2 split: option.split)

text \<open>The \<^verbatim>\<open>while\<close> loop: it ends, since every turn moves the cursor on.\<close>

function cw_run :: "document \<Rightarrow> cw_loop \<Rightarrow> cw_loop" where
  "cw_run doc st = (if cursor st < length doc then cw_run doc (cw_step doc st) else st)"
  by pat_completeness auto
termination
proof (relation "measure (\<lambda>(doc, st). length doc - cursor st)")
  show "wf (measure (\<lambda>(doc, st). length doc - cursor st))"
    by simp
next
  fix doc :: document and st :: cw_loop
  assume "cursor st < length doc"
  then show "((doc, cw_step doc st), (doc, st)) \<in> measure (\<lambda>(doc, st). length doc - cursor st)"
    using cursor_cw_step [of st doc] by simp
qed

declare cw_run.simps [simp del]

definition cw_init :: cw_loop where
  "cw_init = \<lparr>crosswords = [], current_crossword = None, current_orientation = None,
     in_crossword_section = False, collecting_clues = False, clue_counter = 1, cursor = 0\<rparr>"

definition extract_crossword_puzzles :: "document \<Rightarrow> converter \<Rightarrow> converter" where
  "extract_crossword_puzzles doc cv = cv\<lparr>crossword_puzzles := flush (cw_run doc cw_init)\<rparr>"

section \<open>What an emitted question was read from\<close>

text \<open>
  The text of the option that a line gives, when it is an option line: it does not depend
  on the runs.
\<close>

definition option_text_of_line :: "string \<Rightarrow> string option" where
  "option_text_of_line line = map_option opt_text (option_of_line Map.empty line)"

text \<open>
  The question has at least one option, no more options than the paragraph has lines
  after the first, and the texts of its options are those of the option lines of the
  paragraph, in the order of the lines.
\<close>

definition options_in_line_order :: "para \<Rightarrow> mc_question \<Rightarrow> bool" where
  "options_in_line_order para q =
     (let lines = split_nl (strip (para_text para))
      in 1 \<le> length (mc_options q)
         \<and> length (mc_options q) \<le> length lines - 1
         \<and> map opt_text (mc_options q) = List.map_filter option_text_of_line (drop 1 lines))"

text \<open>
  What a match of the True/False pattern in a text is: it lies inside the text, covers
  the text of the match, which is also its group 1, and reads \<open>true\<close> or \<open>false\<close> in
  lower case.
\<close>

definition tf_match_at :: "string \<Rightarrow> rmatch \<Rightarrow> bool" where
  "tf_match_at full m =
     (m_start m + length (m_text m) \<le> length full
      \<and> take (length (m_text m)) (drop (m_start m) full) = m_text m
      \<and> group m 1 = Some (m_text m)
      \<and> (lower (m_text m) = ''true'' \<or> lower (m_text m) = ''false''))"





section \<open>Example documents\<close>

definition plain_run :: "string \<Rightarrow> run" where
  "plain_run s = \<lparr>run_text = s, run_bold = False, run_blips = []\<rparr>"

definition bold_run :: "string \<Rightarrow> run" where
  "bold_run s = \<lparr>run_text = s, run_bold = True, run_blips = []\<rparr>"

definition text_para :: "run list \<Rightarrow> para" where
  "text_para rs = \<lparr>runs = rs, has_pic = False\<rparr>"

text \<open>A paragraph that holds one picture, embedded under the given relationship id.\<close>

definition image_para :: "string \<Rightarrow> para" where
  "image_para e =
     \<lparr>runs = [\<lparr>run_text = [], run_bold = False, run_blips = [Some e]\<rparr>], has_pic = True\<rparr>"

definition quiz_header :: para where
  "quiz_header = text_para [bold_run ''Activity 1: Quiz'']"

text \<open>
  The planet question as a word processor stores it when the line breaks are soft breaks:
  the text up to the bold option is one run, the bold option is a run, the rest is a run.
\<close>

definition planet_para :: para where
  "planet_para = text_para
     [plain_run ''3. Which planet is closest to the sun?\<newline>A. Venus\<newline>'',
      bold_run ''B. Mercury'',
      plain_run ''\<newline>C. Earth\<newline>D. Mars'']"

text \<open>The same question with one run for each line.\<close>

definition planet_para_by_line :: para where
  "planet_para_by_line = text_para
     [plain_run ''3. Which planet is closest to the sun?\<newline>'',
      plain_run ''A. Venus\<newline>'',
      bold_run ''B. Mercury'',
      plain_run ''\<newline>C. Earth\<newline>D. Mars'']"

text \<open>A question at index 0 and the only picture of the document at index 3.\<close>

definition image_at_3 :: document where
  "image_at_3 = [text_para [plain_run ''1. Which shape is shown?''],
     text_para [plain_run ''A. A circle''], text_para [plain_run ''B. A square''],
     image_para ''rId7'']"

text \<open>
  Two crossword sections: the first has a header and no clue, the second has one clue
  under \<open>Across\<close>; \<open>Activity 4\<close> ends the section.
\<close>

definition crossword_doc :: document where
  "crossword_doc = map (\<lambda>s. text_para [plain_run s])
     [''Activity 3, Part I - Crossword Puzzle: Weather'',
      ''Draw the grid first.'',
      ''Activity 3, Part II - Crossword Puzzle: Water'',
      ''Across'',
      ''4. A frozen form of water'',
      ''ICE'',
      ''Activity 4'']"

text \<open>
  A paragraph that matches the entry patterns of the multiple-choice and of the True/False
  pass and the exit pattern of the multiple-choice pass, and a crossword header that
  matches an exit trigger of the crossword pass.
\<close>

definition entry_and_exit_para :: para where
  "entry_and_exit_para = text_para [plain_run ''Activity 2: quiz questions, true or false'']"

definition header_with_unit_2 :: document where
  "header_with_unit_2 =
     [text_para [plain_run ''Activity 3, Part I - Crossword Puzzle: Unit 2 review'']]"

text \<open>A multiple-choice pass inside a section that has an image and a question.\<close>

definition mc_inside :: mc_loop where
  "mc_inside = \<lparr>in_mc_section = True, section_image_id = Some ''rId3'',
     questions_in_current_section = [0],
     mc_conv = reset\<lparr>multiple_choice_questions :=
       [\<lparr>mc_question_text = ''Which?'',
         mc_options = [\<lparr>opt_text = ''This'', opt_correct = True\<rparr>],
         mc_image_id = Some ''rId3''\<rparr>]\<rparr>\<rparr>"

text \<open>A question whose option lines use the letter A twice: five option lines.\<close>

definition five_options_para :: para where
  "five_options_para = text_para
     [plain_run ''1. Which word is a noun?\<newline>A. run\<newline>B. tree\<newline>C. blue\<newline>D. fast\<newline>A. slowly'']"

text \<open>
  A crossword pass that collects clues under \<open>Down\<close>, with the cursor on a numbered clue
  that is followed by its answer.
\<close>

definition ice_clue_doc :: document where
  "ice_clue_doc = [text_para [plain_run ''4. A frozen form of water''], text_para [plain_run ''ICE'']]"

definition collecting_down :: cw_loop where
  "collecting_down = \<lparr>crosswords = [],
     current_crossword = Some \<lparr>cw_title = ''Activity 3, Part I - Crossword Puzzle'', cw_clues = []\<rparr>,
     current_orientation = Some ''down'', in_crossword_section = True, collecting_clues = True,
     clue_counter = 1, cursor = 0\<rparr>"



definition only_true :: para where
  "only_true = text_para [bold_run ''True'']"


text \<open>
  A numbered clue whose text names \<open>Unit 2\<close>, followed by its answer; and a numbered clue
  with a parenthesis, followed by an answer of three words with two blanks and a tab
  between the first two.
\<close>

definition unit_2_clue_doc :: document where
  "unit_2_clue_doc = [text_para [plain_run ''4. The season studied in Unit 2''],
     text_para [plain_run ''WINTER'']]"

definition soda_clue_doc :: document where
  "soda_clue_doc = [text_para [plain_run ''7. A cold fizzy drink (3 words)''],
     text_para [plain_run (''ICE  '' @ [CHR 0x09] @ ''CREAM SODA'')]]"

section \<open>Properties of the image search\<close>

lemma scan_images_filter:
  "scan_images doc xs =
     (case filter (\<lambda>j. para_image (doc ! j) \<noteq> None) xs of
        [] \<Rightarrow> None | j # _ \<Rightarrow> para_image (doc ! j))"
  by (induction xs) (auto split: option.splits)

text \<open>
  C3, as the code has it. The paragraphs inspected are those with index from
  \<open>para_index - 5\<close> (or 0) up to \<open>para_index + 2\<close> (or the last one): five before the
  paragraph, the paragraph itself and two after it; the index \<open>para_index + 3\<close> is the
  end of a Python \<^verbatim>\<open>range\<close> and is not inspected. The result is the embed id given by the
  first of these paragraphs that gives one (a paragraph with a picture element and a run
  whose first blip has a non-empty embed attribute), and None when none does.
\<close>

theorem C3_window_five_before_two_after:
  "find_image_near_paragraph doc para_index =
     (case filter (\<lambda>j. para_image (doc ! j) \<noteq> None)
             [para_index - 5 ..< min (length doc) (para_index + 3)] of
        [] \<Rightarrow> None
      | j # _ \<Rightarrow> para_image (doc ! j))
   \<and> set (search_range doc para_index) =
       {j. para_index \<le> j + 5 \<and> j \<le> para_index + 2 \<and> j < length doc}"
proof -
  have lo: "nat (max 0 (int para_index - 5)) = para_index - 5"
    by simp
  have "find_image_near_paragraph doc para_index =
     (case filter (\<lambda>j. para_image (doc ! j) \<noteq> None)
             [para_index - 5 ..< min (length doc) (para_index + 3)] of
        [] \<Rightarrow> None
      | j # _ \<Rightarrow> para_image (doc ! j))"
    by (simp only: find_image_near_paragraph_def search_range_def scan_images_filter lo)
  moreover have "set (search_range doc para_index) =
       {j. para_index \<le> j + 5 \<and> j \<le> para_index + 2 \<and> j < length doc}"
    unfolding search_range_def lo by auto
  ultimately show ?thesis by simp
qed

text \<open>
  C3, as the claim states it, fails: the paragraph at index 3 is within three paragraphs
  after the paragraph at index 0 and holds a picture, and the search from index 0 finds
  nothing.
\<close>

theorem C3_paragraph_three_after_not_inspected:
  "find_image_near_paragraph image_at_3 0 = None
   \<and> para_image (image_at_3 ! 3) = Some ''rId7''
   \<and> 3 < length image_at_3"
  by code_simp

section \<open>Properties of the multiple-choice pass\<close>

text \<open>
  C1 at a failing input. The paragraph has the text of the claim and exactly the run
  \<open>B. Mercury\<close> bold; the text before it is one run that spans two line breaks. The first
  run moves the position past the end of the first line, so the bold run is registered
  while the cursor is on the line \<open>A. Venus\<close>: the pass marks Venus correct and Mercury
  not.
\<close>

theorem C1_bold_run_registered_on_previous_line:
  "multiple_choice_questions
     (extract_multiple_choice_questions [quiz_header, planet_para] Map.empty reset) =
   [\<lparr>mc_question_text = ''Which planet is closest to the sun?'',
     mc_options = [\<lparr>opt_text = ''Venus'', opt_correct = True\<rparr>,
                   \<lparr>opt_text = ''Mercury'', opt_correct = False\<rparr>,
                   \<lparr>opt_text = ''Earth'', opt_correct = False\<rparr>,
                   \<lparr>opt_text = ''Mars'', opt_correct = False\<rparr>],
     mc_image_id = None\<rparr>]"
  by code_simp

text \<open>With one run for each line the pass gives the options of the claim.\<close>

lemma planet_by_line_options:
  "multiple_choice_questions
     (extract_multiple_choice_questions [quiz_header, planet_para_by_line] Map.empty reset) =
   [\<lparr>mc_question_text = ''Which planet is closest to the sun?'',
     mc_options = [\<lparr>opt_text = ''Venus'', opt_correct = False\<rparr>,
                   \<lparr>opt_text = ''Mercury'', opt_correct = True\<rparr>,
                   \<lparr>opt_text = ''Earth'', opt_correct = False\<rparr>,
                   \<lparr>opt_text = ''Mars'', opt_correct = False\<rparr>],
     mc_image_id = None\<rparr>]"
  by code_simp

text \<open>
  C4 at a failing input. A paragraph \<open>Activity 10\<close> matches neither entry pattern, and
  \<^verbatim>\<open>Activity\s*[2-9]\<close> does not match it either, since the character after the blank is
  \<open>1\<close>: the step leaves the section flag as it was, so a pass that is inside the section
  stays inside.
\<close>

theorem C4_activity_10_does_not_exit:
  "in_mc_section (mc_step doc st (idx, text_para [plain_run ''Activity 10''])) = in_mc_section st"
proof -
  have t: "strip (para_text (text_para [plain_run ''Activity 10''])) = ''Activity 10''"
    by code_simp
  have e: "mc_section_entry ''Activity 10'' = False"
    by code_simp
  have x: "mc_section_exit ''Activity 10'' = False"
    by code_simp
  have p: "parse_question (text_para [plain_run ''Activity 10'']) ''Activity 10'' = None"
    by code_simp
  show ?thesis
    by (simp add: mc_step_def Let_def t e x p)
qed

text \<open>A paragraph \<open>Activity 2\<close> does end the section.\<close>

lemma activity_2_exits:
  "in_mc_section (mc_step doc st (idx, text_para [plain_run ''Activity 2''])) = False"
proof -
  have t: "strip (para_text (text_para [plain_run ''Activity 2''])) = ''Activity 2''"
    by code_simp
  have e: "mc_section_entry ''Activity 2'' = False"
    by code_simp
  have x: "mc_section_exit ''Activity 2'' = True"
    by code_simp
  show ?thesis
    by (simp add: mc_step_def Let_def t e x)
qed

section \<open>The empty document\<close>

text \<open>
  C9. On a document with no paragraph, each of the three passes returns (the passes are
  total functions; the loop of the crossword pass is shown above to end), and run in the
  order of \<^verbatim>\<open>process_docx\<close> from the state that \<^verbatim>\<open>reset\<close> leaves they give three empty
  lists.
\<close>

theorem C9_empty_document_gives_empty_lists:
  "multiple_choice_questions (extract_multiple_choice_questions [] imgs reset) = []
   \<and> true_false_questions (extract_true_false_questions [] reset) = []
   \<and> crossword_puzzles (extract_crossword_puzzles [] reset) = []
   \<and> extract_crossword_puzzles []
        (extract_true_false_questions [] (extract_multiple_choice_questions [] imgs reset)) =
      reset\<lparr>images := imgs\<rparr>"
  by (simp add: extract_multiple_choice_questions_def mc_init_def enumerate_eq_zip
      extract_true_false_questions_def tf_init_def
      extract_crossword_puzzles_def cw_run.simps cw_init_def flush_def reset_def)

section \<open>Section entry comes before section exit\<close>

lemma mc_section_entry_Nil: "mc_section_entry [] = False"
  by code_simp

lemma tf_section_entry_Nil: "tf_section_entry [] = False"
  by code_simp

lemma cw_section_entry_Nil: "cw_section_entry [] = False"
  by code_simp

lemma mc_step_entry:
  "mc_section_entry (strip (para_text para)) \<Longrightarrow>
   mc_step doc st (idx, para) =
     st\<lparr>in_mc_section := True, section_image_id := find_image_near_paragraph doc idx\<rparr>"
  using mc_section_entry_Nil by (auto simp add: mc_step_def Let_def)

lemma tf_step_entry:
  "tf_section_entry (strip (para_text para)) \<Longrightarrow>
   tf_step st para = st\<lparr>in_true_false_section := True\<rparr>"
  using tf_section_entry_Nil by (auto simp add: tf_step_def Let_def)

lemma cw_step_entry:
  "cw_section_entry (strip (para_text (doc ! cursor st))) \<Longrightarrow>
   in_crossword_section (cw_step doc st)
   \<and> (\<exists>title. current_crossword (cw_step doc st) = Some \<lparr>cw_title = title, cw_clues = []\<rparr>)
   \<and> crosswords (cw_step doc st) = flush st"
  using cw_section_entry_Nil
  by (auto simp add: cw_step_def Let_def cw_section_entry_def cw_header_def)

text \<open>
  C8. In each pass the entry test is made first and ends the turn. A paragraph whose
  stripped text matches the entry pattern of the multiple-choice pass sets the section
  flag and the section image and changes nothing else (the exit branch, which would clear
  the flag and could set the shared image, is not taken); in the True/False pass it sets
  the flag and changes nothing else; in the crossword pass (the paragraph under the
  cursor) it opens a new crossword with no clue, inside the section, after the flush of
  the crossword before it, which the exit branch would have dropped or flushed with the
  section flag cleared.
\<close>

theorem C8_entry_paragraph_is_not_an_exit:
  "(mc_section_entry (strip (para_text para)) \<longrightarrow>
      mc_step doc st (idx, para) =
        st\<lparr>in_mc_section := True, section_image_id := find_image_near_paragraph doc idx\<rparr>)
   \<and> (tf_section_entry (strip (para_text para)) \<longrightarrow>
      tf_step ts para = ts\<lparr>in_true_false_section := True\<rparr>)
   \<and> (cw_section_entry (strip (para_text (cdoc ! cursor cs))) \<longrightarrow>
      in_crossword_section (cw_step cdoc cs)
      \<and> (\<exists>title. current_crossword (cw_step cdoc cs) =
                    Some \<lparr>cw_title = title, cw_clues = []\<rparr>)
      \<and> crosswords (cw_step cdoc cs) = flush cs)"
  using mc_step_entry [of para doc st idx] tf_step_entry [of para ts] cw_step_entry [of cdoc cs]
  by blast

theorem C8_entry_and_exit_paragraph_witness:
  "mc_section_entry (strip (para_text entry_and_exit_para))
   \<and> mc_section_exit (strip (para_text entry_and_exit_para))
   \<and> tf_section_entry (strip (para_text entry_and_exit_para))
   \<and> cw_section_entry (strip (para_text (header_with_unit_2 ! cursor cw_init)))
   \<and> cw_section_exit (strip (para_text (header_with_unit_2 ! cursor cw_init)))
   \<and> in_mc_section (mc_step [] mc_inside (0, entry_and_exit_para))
   \<and> shared_image_id (mc_conv (mc_step [] mc_inside (0, entry_and_exit_para))) = None
   \<and> in_true_false_section (tf_step (tf_init reset) entry_and_exit_para)
   \<and> in_crossword_section (cw_step header_with_unit_2 cw_init)"
proof -
  have a: "mc_section_entry (strip (para_text entry_and_exit_para))"
    by code_simp
  have b: "mc_section_exit (strip (para_text entry_and_exit_para))"
    by code_simp
  have c: "tf_section_entry (strip (para_text entry_and_exit_para))"
    by code_simp
  have d: "cw_section_entry (strip (para_text (header_with_unit_2 ! cursor cw_init)))"
    by code_simp
  have e: "cw_section_exit (strip (para_text (header_with_unit_2 ! cursor cw_init)))"
    by code_simp
  have f: "shared_image_id (mc_conv mc_inside) = None"
    by (simp add: mc_inside_def reset_def)
  show ?thesis
    using a b c d e f
      C8_entry_paragraph_is_not_an_exit [of entry_and_exit_para "[]" mc_inside 0 "tf_init reset"
        header_with_unit_2 cw_init]
    by simp
qed

section \<open>Crosswords without clues are not kept\<close>

definition kept :: "crossword list \<Rightarrow> bool" where
  "kept cws = list_all (\<lambda>cw. cw_clues cw \<noteq> []) cws"

lemma crosswords_add_clue [simp]: "crosswords (add_clue c st) = crosswords st"
  by (simp add: add_clue_def)

lemma crosswords_add_clues [simp]:
  "crosswords (foldl (\<lambda>s c. add_clue c s) st cs) = crosswords st"
  by (induction cs arbitrary: st) simp_all

lemma kept_flush: "kept (crosswords st) \<Longrightarrow> kept (flush st)"
  by (simp add: kept_def flush_def split: option.split)

lemma kept_cw_header: "kept (crosswords st) \<Longrightarrow> kept (crosswords (cw_header m st))"
  using kept_flush [of st] by (simp add: cw_header_def Let_def)

lemma kept_cw_exit: "kept (crosswords st) \<Longrightarrow> kept (crosswords (cw_exit st))"
  using kept_flush [of st] by (simp add: cw_exit_def)

lemma crosswords_cw_orientation: "crosswords (cw_orientation para t m st) = crosswords st"
  by (simp add: cw_orientation_def Let_def)

lemma crosswords_cw_pattern1: "crosswords (cw_pattern1 doc m st) = crosswords st"
  by (simp add: cw_pattern1_def Let_def)

lemma crosswords_cw_pattern2: "crosswords (cw_pattern2 doc t st) = crosswords st"
  by (simp add: cw_pattern2_def Let_def split: list.split)

lemma kept_cw_step: "kept (crosswords st) \<Longrightarrow> kept (crosswords (cw_step doc st))"
  by (simp add: cw_step_def Let_def kept_cw_header kept_cw_exit crosswords_cw_orientation
      crosswords_cw_pattern1 crosswords_cw_pattern2 split: option.split)

lemma kept_cw_run: "kept (crosswords st) \<Longrightarrow> kept (crosswords (cw_run doc st))"
proof (induction doc st rule: cw_run.induct)
  case (1 doc st)
  show ?case
  proof (cases "cursor st < length doc")
    case True
    then have "cw_run doc st = cw_run doc (cw_step doc st)"
      by (subst cw_run.simps) simp
    with 1 True show ?thesis
      by (simp add: kept_cw_step)
  next
    case False
    then have "cw_run doc st = st"
      by (subst cw_run.simps) simp
    with 1 show ?thesis by simp
  qed
qed

text \<open>
  C7. Whatever the paragraphs are, every crossword of the final list has at least one
  clue: a crossword enters the list only through the flush, which keeps it only with a
  clue, and the list is not changed otherwise. So a crossword whose header was read and
  that got no clue before the next header, an exit trigger or the end of the document is
  not in the list.
\<close>

theorem C7_every_kept_crossword_has_a_clue:
  "cw \<in> set (crossword_puzzles (extract_crossword_puzzles doc cv)) \<Longrightarrow> cw_clues cw \<noteq> []"
proof -
  assume a: "cw \<in> set (crossword_puzzles (extract_crossword_puzzles doc cv))"
  have "kept (crosswords cw_init)"
    by (simp add: kept_def cw_init_def)
  then have "kept (flush (cw_run doc cw_init))"
    by (intro kept_flush kept_cw_run)
  with a show ?thesis
    by (simp add: extract_crossword_puzzles_def kept_def list_all_iff)
qed

text \<open>
  In \<open>crossword_doc\<close> the first section has a header and no clue and the second has one
  clue: the final list holds the second crossword only.
\<close>

lemma crossword_doc_puzzles:
  "crossword_puzzles (extract_crossword_puzzles crossword_doc reset) =
   [\<lparr>cw_title = ''Activity 3, Part II - Crossword Puzzle: Water'',
     cw_clues = [\<lparr>clue_orientation = ''across'', clue_clue = ''A frozen form of water'',
                  clue_answer = ''ICE''\<rparr>]\<rparr>]"
  by code_simp

theorem C7_crossword_doc_witness:
  "\<lparr>cw_title = ''Activity 3, Part II - Crossword Puzzle: Water'',
    cw_clues = [\<lparr>clue_orientation = ''across'', clue_clue = ''A frozen form of water'',
                 clue_answer = ''ICE''\<rparr>]\<rparr>
     \<in> set (crossword_puzzles (extract_crossword_puzzles crossword_doc reset))
   \<and> cw_clues \<lparr>cw_title = ''Activity 3, Part II - Crossword Puzzle: Water'',
        cw_clues = [\<lparr>clue_orientation = ''across'', clue_clue = ''A frozen form of water'',
                     clue_answer = ''ICE''\<rparr>]\<rparr> \<noteq> []
   \<and> length (crossword_puzzles (extract_crossword_puzzles crossword_doc reset)) = 1"
proof -
  have m: "\<lparr>cw_title = ''Activity 3, Part II - Crossword Puzzle: Water'',
    cw_clues = [\<lparr>clue_orientation = ''across'', clue_clue = ''A frozen form of water'',
                 clue_answer = ''ICE''\<rparr>]\<rparr>
     \<in> set (crossword_puzzles (extract_crossword_puzzles crossword_doc reset))"
    by (simp add: crossword_doc_puzzles)
  show ?thesis
    using m C7_every_kept_crossword_has_a_clue [OF m]
    by (simp add: crossword_doc_puzzles)
qed

section \<open>The options of an emitted question\<close>

lemma opt_text_option_of_line:
  "map_option opt_text (option_of_line m line) = option_text_of_line line"
  by (simp add: option_text_of_line_def option_of_line_def split: option.split)

lemma map_filter_texts:
  "map opt_text (List.map_filter (option_of_line m) ls) = List.map_filter option_text_of_line ls"
proof (induction ls)
  case Nil
  show ?case by simp
next
  case (Cons l ls)
  have "option_text_of_line l = map_option opt_text (option_of_line m l)"
    by (simp add: opt_text_option_of_line)
  with Cons show ?case
    by (cases "option_of_line m l") simp_all
qed

lemma length_map_filter: "length (List.map_filter f xs) \<le> length xs"
  by (simp add: List.map_filter_def)

lemma parse_question_options:
  assumes "parse_question para (strip (para_text para)) = Some (qt, opts)"
  shows "options_in_line_order para
           \<lparr>mc_question_text = qt, mc_options = opts, mc_image_id = i\<rparr>"
proof -
  let ?lines = "split_nl (strip (para_text para))"
  from assms have o: "opts = collect_options (map_runs ?lines (runs para)) ?lines"
    and ne: "opts \<noteq> []"
    by (auto simp add: parse_question_def Let_def split: option.splits if_splits)
  have "length opts \<le> length (drop 1 ?lines)"
    unfolding o collect_options_def by (rule length_map_filter)
  moreover have "map opt_text opts = List.map_filter option_text_of_line (drop 1 ?lines)"
    unfolding o collect_options_def by (rule map_filter_texts)
  moreover from ne have "1 \<le> length opts"
    by (cases opts) simp_all
  ultimately show ?thesis
    by (simp add: options_in_line_order_def Let_def)
qed

lemma mc_step_questions:
  "multiple_choice_questions (mc_conv (mc_step doc st (idx, para))) =
     multiple_choice_questions (mc_conv st)
   \<or> (\<exists>q. multiple_choice_questions (mc_conv (mc_step doc st (idx, para))) =
            multiple_choice_questions (mc_conv st) @ [q]
          \<and> options_in_line_order para q)"
proof (cases "parse_question para (strip (para_text para))")
  case None
  then show ?thesis by (simp add: mc_step_def Let_def)
next
  case (Some a)
  obtain qt opts where a: "a = (qt, opts)" by (cases a)
  show ?thesis
    using Some parse_question_options [of para qt opts]
    by (auto simp add: mc_step_def Let_def a)
qed

lemma mc_fold_questions:
  "set (map snd ips) \<subseteq> set doc' \<Longrightarrow>
   \<exists>new. multiple_choice_questions (mc_conv (foldl (mc_step doc) st ips)) =
            multiple_choice_questions (mc_conv st) @ new
        \<and> list_all (\<lambda>q. \<exists>para \<in> set doc'. options_in_line_order para q) new"
proof (induction ips arbitrary: st)
  case Nil
  show ?case by simp
next
  case (Cons ip ips)
  obtain idx para where ip: "ip = (idx, para)" by (cases ip)
  from Cons.prems ip have p: "para \<in> set doc'" and r: "set (map snd ips) \<subseteq> set doc'"
    by auto
  from Cons.IH [OF r, of "mc_step doc st ip"] obtain new where
    n: "multiple_choice_questions (mc_conv (foldl (mc_step doc) (mc_step doc st ip) ips)) =
        multiple_choice_questions (mc_conv (mc_step doc st ip)) @ new"
    and a: "list_all (\<lambda>q. \<exists>para \<in> set doc'. options_in_line_order para q) new"
    by blast
  from mc_step_questions [of doc st idx para] show ?case
  proof
    assume "multiple_choice_questions (mc_conv (mc_step doc st (idx, para))) =
              multiple_choice_questions (mc_conv st)"
    with n a ip show ?thesis by auto
  next
    assume "\<exists>q. multiple_choice_questions (mc_conv (mc_step doc st (idx, para))) =
                  multiple_choice_questions (mc_conv st) @ [q]
                \<and> options_in_line_order para q"
    then obtain q where
      q: "multiple_choice_questions (mc_conv (mc_step doc st (idx, para))) =
            multiple_choice_questions (mc_conv st) @ [q]"
      and o: "options_in_line_order para q"
      by blast
    have "list_all (\<lambda>q. \<exists>para \<in> set doc'. options_in_line_order para q) (q # new)"
      using a o p by auto
    with n q ip show ?thesis
      by (intro exI [of _ "q # new"]) simp
  qed
qed

text \<open>
  C5, as the code has it. The pass appends questions to the list of the converter, and
  each question it appends was read from a paragraph of the document, has at least one
  option, has no more options than that paragraph has lines after the first, and lists
  the option lines of the paragraph in the order of the lines: one option for each line
  that matches \<^verbatim>\<open>^([A-D])\.\s+(.+)$\<close>, whatever its letter. Nothing bounds the number of
  options by four or orders them by letter.
\<close>

theorem C5_one_option_per_option_line:
  "\<exists>new. multiple_choice_questions (extract_multiple_choice_questions doc imgs cv) =
            multiple_choice_questions cv @ new
        \<and> list_all (\<lambda>q. \<exists>para \<in> set doc. options_in_line_order para q) new"
proof -
  have "set (map snd (enumerate 0 doc)) \<subseteq> set doc"
    by (simp add: enumerate_eq_zip)
  from mc_fold_questions [OF this, of doc "mc_init imgs cv"] show ?thesis
    by (simp add: extract_multiple_choice_questions_def mc_init_def)
qed

text \<open>
  C5, as the claim states it, fails: a paragraph with the option letters A, B, C, D, A
  gives a question with five options, in the order of the lines.
\<close>

theorem C5_repeated_letter_gives_five_options:
  "multiple_choice_questions
     (extract_multiple_choice_questions [quiz_header, five_options_para] Map.empty reset) =
   [\<lparr>mc_question_text = ''Which word is a noun?'',
     mc_options = [\<lparr>opt_text = ''run'', opt_correct = False\<rparr>,
                   \<lparr>opt_text = ''tree'', opt_correct = False\<rparr>,
                   \<lparr>opt_text = ''blue'', opt_correct = False\<rparr>,
                   \<lparr>opt_text = ''fast'', opt_correct = False\<rparr>,
                   \<lparr>opt_text = ''slowly'', opt_correct = False\<rparr>],
     mc_image_id = None\<rparr>]"
  by code_simp

section \<open>Numbered clues of a crossword\<close>

lemma of_char_lower_char:
  "65 \<le> (of_char a :: nat) \<Longrightarrow> 65 \<le> (of_char (lower_char a) :: nat)"
  by (auto simp add: lower_char_def isupper_def Let_def)

lemma digit_ne_lower:
  "isdigit d \<Longrightarrow> 65 \<le> (of_char a :: nat) \<Longrightarrow> lower_char d \<noteq> lower_char a"
proof
  assume d: "isdigit d" and a: "65 \<le> (of_char a :: nat)" and e: "lower_char d = lower_char a"
  from d have "lower_char d = d"
    by (auto simp add: isdigit_def lower_char_def isupper_def Let_def)
  with e have "of_char d = (of_char (lower_char a) :: nat)"
    by simp
  with of_char_lower_char [OF a] d show False
    by (simp add: isdigit_def Let_def)
qed

lemma numbered_clue_starts_with_digit:
  "re_match False rx_numbered_clue t = Some m \<Longrightarrow> \<exists>d r. t = d # r \<and> isdigit d"
  by (cases t) (auto simp add: re_match_def match_here_def rx_numbered_clue_def seqs_def plus_def
      split: if_splits)

lemma digit_not_clues_marker: "isdigit d \<Longrightarrow> re_match True rx_clues_marker (d # r) = None"
  using digit_ne_lower [of d "CHR ''C''"]
  by (simp add: re_match_def match_here_def rx_clues_marker_def seqs_def lit_def)

lemma digit_not_orientation: "isdigit d \<Longrightarrow> re_match True rx_orientation (d # r) = None"
  using digit_ne_lower [of d "CHR ''A''"] digit_ne_lower [of d "CHR ''D''"]
  by (simp add: re_match_def match_here_def rx_orientation_def seqs_def lit_def)

text \<open>
  C6, as the code has it. The pass is inside a crossword section with a crossword open,
  collects clues and has an orientation set; the stripped text of the paragraph under the
  cursor is neither a crossword header nor an exit trigger (it names neither \<open>Unit 2\<close> nor
  \<open>Activity 4\<close>: those tests come first), and it matches the numbered-clue pattern with clue
  text \<open>clue_text\<close> (group 2). If there is a next paragraph and its stripped text matches
  \<^verbatim>\<open>^[A-Z][A-Z\s-]+$\<close>, the turn appends to the open crossword exactly one clue, with the
  orientation last set, the captured clue text and the next paragraph's text with its
  whitespace collapsed, and moves the cursor by 2; otherwise it changes nothing and moves
  the cursor by 1.
\<close>

theorem C6_numbered_clue_then_capitals:
  assumes "in_crossword_section st" and "current_crossword st = Some cw"
    and "collecting_clues st" and "current_orientation st = Some orientation"
    and "orientation \<noteq> []"
    and "\<not> cw_section_entry (strip (para_text (doc ! cursor st)))"
    and "\<not> cw_section_exit (strip (para_text (doc ! cursor st)))"
    and "re_match False rx_numbered_clue (strip (para_text (doc ! cursor st))) = Some m"
    and "group m 2 = Some clue_text"
  shows "cw_step doc st =
     (if cursor st + 1 < length doc
         \<and> re_match False rx_all_caps (strip (para_text (doc ! (cursor st + 1)))) \<noteq> None
      then st\<lparr>current_crossword := Some (cw\<lparr>cw_clues := cw_clues cw @
                [\<lparr>clue_orientation = orientation, clue_clue = strip clue_text,
                  clue_answer = join_sp (split_ws (strip (para_text (doc ! (cursor st + 1)))))\<rparr>]\<rparr>),
              cursor := cursor st + 2\<rparr>
      else st\<lparr>cursor := cursor st + 1\<rparr>)"
proof -
  obtain d r where t: "strip (para_text (doc ! cursor st)) = d # r" and d: "isdigit d"
    using numbered_clue_starts_with_digit [OF assms(8)] by blast
  have h: "re_search True rx_crossword_header (d # r) = None"
    using assms(6) by (simp add: cw_section_entry_def t)
  have x: "\<not> cw_section_exit (d # r)"
    using assms(7) by (simp add: t)
  have n: "re_match False rx_numbered_clue (d # r) = Some m"
    using assms(8) by (simp add: t)
  show ?thesis
    using assms(1-5,9) h x n
    by (simp add: cw_step_def Let_def t digit_not_clues_marker [OF d] digit_not_orientation [OF d]
        truthy_def cw_pattern1_def add_clue_def)
qed

text \<open>
  The example of the claim, and a clue with a parenthesis whose answer has two blanks and a
  tab between its first two words: the answer kept has one blank between the words.
\<close>

theorem C6_frozen_water_witness:
  "in_crossword_section collecting_down
   \<and> collecting_clues collecting_down
   \<and> current_orientation collecting_down = Some ''down''
   \<and> \<not> cw_section_entry (strip (para_text (ice_clue_doc ! cursor collecting_down)))
   \<and> \<not> cw_section_exit (strip (para_text (ice_clue_doc ! cursor collecting_down)))
   \<and> re_match False rx_numbered_clue (strip (para_text (ice_clue_doc ! cursor collecting_down))) =
       Some \<lparr>m_start = 0, m_text = ''4. A frozen form of water'',
             m_groups = [(2, ''A frozen form of water''), (1, ''4'')]\<rparr>
   \<and> re_match False rx_all_caps (strip (para_text (ice_clue_doc ! Suc 0))) \<noteq> None
   \<and> cw_step ice_clue_doc collecting_down =
       collecting_down\<lparr>current_crossword :=
           Some \<lparr>cw_title = ''Activity 3, Part I - Crossword Puzzle'',
                 cw_clues = [\<lparr>clue_orientation = ''down'', clue_clue = ''A frozen form of water'',
                              clue_answer = ''ICE''\<rparr>]\<rparr>,
         cursor := 2\<rparr>
   \<and> \<not> cw_section_entry (strip (para_text (soda_clue_doc ! cursor collecting_down)))
   \<and> \<not> cw_section_exit (strip (para_text (soda_clue_doc ! cursor collecting_down)))
   \<and> re_match False rx_numbered_clue (strip (para_text (soda_clue_doc ! cursor collecting_down))) =
       Some \<lparr>m_start = 0, m_text = ''7. A cold fizzy drink (3 words)'',
             m_groups = [(3, ''3 words''), (2, ''A cold fizzy drink''), (1, ''7'')]\<rparr>
   \<and> re_match False rx_all_caps (strip (para_text (soda_clue_doc ! Suc 0))) \<noteq> None
   \<and> cw_step soda_clue_doc collecting_down =
       collecting_down\<lparr>current_crossword :=
           Some \<lparr>cw_title = ''Activity 3, Part I - Crossword Puzzle'',
                 cw_clues = [\<lparr>clue_orientation = ''down'', clue_clue = ''A cold fizzy drink'',
                              clue_answer = ''ICE CREAM SODA''\<rparr>]\<rparr>,
         cursor := 2\<rparr>"
proof -
  let ?m = "\<lparr>m_start = 0, m_text = ''4. A frozen form of water'',
             m_groups = [(2, ''A frozen form of water''), (1, ''4'')]\<rparr>"
  let ?n = "\<lparr>m_start = 0, m_text = ''7. A cold fizzy drink (3 words)'',
             m_groups = [(3, ''3 words''), (2, ''A cold fizzy drink''), (1, ''7'')]\<rparr>"
  let ?cw = "\<lparr>cw_title = ''Activity 3, Part I - Crossword Puzzle'', cw_clues = []\<rparr>"
  have s1: "in_crossword_section collecting_down"
    and s2: "current_crossword collecting_down = Some ?cw"
    and s3: "collecting_clues collecting_down"
    and s4: "current_orientation collecting_down = Some ''down''"
    and s5: "cursor collecting_down = 0"
    by (simp_all add: collecting_down_def)
  have o: "''down'' \<noteq> []"
    by simp
  have e: "\<not> cw_section_entry (strip (para_text (ice_clue_doc ! cursor collecting_down)))"
    by code_simp
  have x: "\<not> cw_section_exit (strip (para_text (ice_clue_doc ! cursor collecting_down)))"
    by code_simp
  have n: "re_match False rx_numbered_clue
             (strip (para_text (ice_clue_doc ! cursor collecting_down))) = Some ?m"
    by code_simp
  have g: "group ?m 2 = Some ''A frozen form of water''"
    by (simp add: group_def)
  have c: "re_match False rx_all_caps (strip (para_text (ice_clue_doc ! Suc 0))) \<noteq> None"
    by code_simp
  have l: "length ice_clue_doc = 2"
    by (simp add: ice_clue_doc_def)
  have k: "strip ''A frozen form of water'' = ''A frozen form of water''"
    by code_simp
  have a: "join_sp (split_ws (strip (para_text (ice_clue_doc ! Suc 0)))) = ''ICE''"
    by code_simp
  have e': "\<not> cw_section_entry (strip (para_text (soda_clue_doc ! cursor collecting_down)))"
    by code_simp
  have x': "\<not> cw_section_exit (strip (para_text (soda_clue_doc ! cursor collecting_down)))"
    by code_simp
  have n': "re_match False rx_numbered_clue
             (strip (para_text (soda_clue_doc ! cursor collecting_down))) = Some ?n"
    by code_simp
  have g': "group ?n 2 = Some ''A cold fizzy drink''"
    by (simp add: group_def)
  have c': "re_match False rx_all_caps (strip (para_text (soda_clue_doc ! Suc 0))) \<noteq> None"
    by code_simp
  have l': "length soda_clue_doc = 2"
    by (simp add: soda_clue_doc_def)
  have k': "strip ''A cold fizzy drink'' = ''A cold fizzy drink''"
    by code_simp
  have a': "join_sp (split_ws (strip (para_text (soda_clue_doc ! Suc 0)))) = ''ICE CREAM SODA''"
    by code_simp
  have r1: "cw_step ice_clue_doc collecting_down =
       collecting_down\<lparr>current_crossword :=
           Some \<lparr>cw_title = ''Activity 3, Part I - Crossword Puzzle'',
                 cw_clues = [\<lparr>clue_orientation = ''down'', clue_clue = ''A frozen form of water'',
                              clue_answer = ''ICE''\<rparr>]\<rparr>,
         cursor := 2\<rparr>"
    using C6_numbered_clue_then_capitals [OF s1 s2 s3 s4 o e x n g]
    by (simp add: s5 l k a c numeral_2_eq_2)
  have r2: "cw_step soda_clue_doc collecting_down =
       collecting_down\<lparr>current_crossword :=
           Some \<lparr>cw_title = ''Activity 3, Part I - Crossword Puzzle'',
                 cw_clues = [\<lparr>clue_orientation = ''down'', clue_clue = ''A cold fizzy drink'',
                              clue_answer = ''ICE CREAM SODA''\<rparr>]\<rparr>,
         cursor := 2\<rparr>"
    using C6_numbered_clue_then_capitals [OF s1 s2 s3 s4 o e' x' n' g']
    by (simp add: s5 l' k' a' c' numeral_2_eq_2)
  show ?thesis
    using s1 s3 s4 e x n c e' x' n' c' r1 r2 by simp
qed

text \<open>
  C6, as the claim states it, fails. The pass collects clues under \<open>Down\<close>; the paragraph
  under the cursor matches the numbered-clue pattern and the next paragraph is in
  capitals, but the clue names \<open>Unit 2\<close>, which the pass takes as the end of the crossword
  section: no clue is added, the section is left, and the cursor moves by 1.
\<close>

theorem C6_clue_naming_unit_2_ends_the_section:
  "in_crossword_section collecting_down
   \<and> collecting_clues collecting_down
   \<and> current_orientation collecting_down = Some ''down''
   \<and> re_match False rx_numbered_clue
        (strip (para_text (unit_2_clue_doc ! cursor collecting_down))) \<noteq> None
   \<and> re_match False rx_all_caps (strip (para_text (unit_2_clue_doc ! Suc 0))) \<noteq> None
   \<and> cw_step unit_2_clue_doc collecting_down =
       collecting_down\<lparr>in_crossword_section := False, cursor := 1\<rparr>"
proof -
  have s: "in_crossword_section collecting_down" "collecting_clues collecting_down"
    "current_orientation collecting_down = Some ''down''"
    by (simp_all add: collecting_down_def)
  have n: "re_match False rx_numbered_clue
        (strip (para_text (unit_2_clue_doc ! cursor collecting_down))) \<noteq> None"
    by code_simp
  have c: "re_match False rx_all_caps (strip (para_text (unit_2_clue_doc ! Suc 0))) \<noteq> None"
    by code_simp
  have s5: "cursor collecting_down = 0"
    by (simp add: collecting_down_def)
  have hc: "\<not> has_clues (current_crossword collecting_down)"
    by (simp add: collecting_down_def has_clues_def)
  have t: "strip (para_text (unit_2_clue_doc ! 0)) = ''4. The season studied in Unit 2''"
    by code_simp
  have h: "re_search True rx_crossword_header ''4. The season studied in Unit 2'' = None"
    by code_simp
  have x: "cw_section_exit ''4. The season studied in Unit 2''"
    by code_simp
  have "cw_step unit_2_clue_doc collecting_down =
       collecting_down\<lparr>in_crossword_section := False, cursor := 1\<rparr>"
    by (simp add: cw_step_def Let_def s5 t h x cw_exit_def hc)
  with s n c show ?thesis by simp
qed

section \<open>The answer of a True/False paragraph\<close>

lemma lit_Nil: "lit [] = Eps"
  by (simp add: lit_def seqs_def)

lemma lit_Cons: "lit (a # w) = Seq (C (Ch a)) (lit w)"
  by (simp add: lit_def seqs_def)

lemma ms_lit_elem:
  "(p', r', g') \<in> set (ms True (lit w) (p, r, g)) \<Longrightarrow>
   g' = g \<and> (\<exists>u. r = u @ r' \<and> lower u = lower w)"
proof (induction w arbitrary: p r)
  case Nil
  then show ?case by (simp add: lit_Nil lower_def)
next
  case (Cons a w)
  show ?case
  proof (cases r)
    case Nil
    with Cons.prems show ?thesis by (simp add: lit_Cons)
  next
    case (Cons c r1)
    with Cons.prems have m: "lower_char c = lower_char a"
      and e: "(p', r', g') \<in> set (ms True (lit w) (Some c, r1, g))"
      by (auto simp add: lit_Cons split: if_splits)
    from Cons.IH [OF e] obtain u where "g' = g" and "r1 = u @ r'" and "lower u = lower w"
      by blast
    with m Cons show ?thesis
      by (intro conjI exI [of _ "c # u"]) (simp_all add: lower_def)
  qed
qed

lemma lower_True: "lower ''True'' = ''true''" by code_simp
lemma lower_False: "lower ''False'' = ''false''" by code_simp

lemma ms_true_false_elem:
  assumes "(p', r', g') \<in> set (ms True rx_true_false (p, s, []))"
  shows "\<exists>u. s = u @ r' \<and> g' = [(1, u)] \<and> (lower u = ''true'' \<or> lower u = ''false'')"
proof -
  from assms obtain g0 where
    a: "(p', r', g0) \<in> set (ms True (lit ''True'') (p, s, [])) \<or>
        (p', r', g0) \<in> set (ms True (lit ''False'') (p, s, []))"
    and g: "g' = (1, take (length s - length r') s) # g0"
    by (auto simp add: rx_true_false_def seqs_def split: if_splits)
  from a obtain u where "g0 = []" and u: "s = u @ r'" and "lower u = ''true'' \<or> lower u = ''false''"
    using ms_lit_elem [of p' r' g0 "''True''" p s "[]"] ms_lit_elem [of p' r' g0 "''False''" p s "[]"]
    by (auto simp add: lower_True lower_False)
  with g show ?thesis by auto
qed

lemma match_here_true_false:
  assumes "match_here True rx_true_false off p s = Some (m, p', r')"
  shows "\<exists>u. s = u @ r' \<and> u \<noteq> [] \<and> m_start m = off \<and> m_text m = u \<and> group m 1 = Some u
            \<and> (lower u = ''true'' \<or> lower u = ''false'')"
proof -
  from assms obtain g rest where l: "ms True rx_true_false (p, s, []) = (p', r', g) # rest"
    and m: "m = \<lparr>m_start = off, m_text = take (length s - length r') s, m_groups = g\<rparr>"
    by (auto simp add: match_here_def split: list.splits)
  from l have "(p', r', g) \<in> set (ms True rx_true_false (p, s, []))"
    by simp
  from ms_true_false_elem [OF this] obtain u where u: "s = u @ r'" and g: "g = [(1, u)]"
    and t: "lower u = ''true'' \<or> lower u = ''false''"
    by blast
  from t have "u \<noteq> []" by (auto simp add: lower_def)
  with u g t m show ?thesis
    by (auto simp add: group_def)
qed

lemma finditer_from_true_false_gen:
  "ic = True \<Longrightarrow> re = rx_true_false \<Longrightarrow> full = pre @ s \<Longrightarrow> off = length pre \<Longrightarrow>
   m \<in> set (finditer_from ic re off p s) \<Longrightarrow> tf_match_at full m"
proof (induction ic re off p s arbitrary: pre rule: finditer_from.induct)
  case (1 ic re off p s)
  note ic = \<open>ic = True\<close> and re = \<open>re = rx_true_false\<close>
  show ?case
  proof (cases "match_here ic re off p s")
    case None
    show ?thesis
    proof (cases s)
      case Nil
      have "finditer_from ic re off p s = []"
        using None Nil by (subst finditer_from.simps) simp
      with "1.prems" show ?thesis by simp
    next
      case (Cons c s')
      have "finditer_from ic re off p s = finditer_from ic re (Suc off) (Some c) s'"
        using None Cons by (subst finditer_from.simps) simp
      with "1.prems" have m: "m \<in> set (finditer_from ic re (Suc off) (Some c) s')"
        by simp
      have f: "full = (pre @ [c]) @ s'" "Suc off = length (pre @ [c])"
        using "1.prems" Cons by simp_all
      show ?thesis
        using "1.IH" None Cons ic re f m by blast
    qed
  next
    case (Some a)
    obtain m0 p' r' where a: "a = (m0, p', r')" by (cases a)
    from Some a ic re have "match_here True rx_true_false off p s = Some (m0, p', r')"
      by simp
    from match_here_true_false [OF this] obtain u where
      u: "s = u @ r'" and ne: "u \<noteq> []" and st: "m_start m0 = off" and tx: "m_text m0 = u"
      and gr: "group m0 1 = Some u" and lw: "lower u = ''true'' \<or> lower u = ''false''"
      by blast
    from u ne have sh: "length r' < length s" by simp
    have "finditer_from ic re off p s =
          m0 # finditer_from ic re (off + (length s - length r')) p' r'"
      using Some a sh by (subst finditer_from.simps) simp
    with "1.prems" have
      "m = m0 \<or> m \<in> set (finditer_from ic re (off + (length s - length r')) p' r')"
      by simp
    then show ?thesis
    proof
      assume "m = m0"
      with u st tx gr lw "1.prems" show ?thesis
        by (simp add: tf_match_at_def)
    next
      assume m: "m \<in> set (finditer_from ic re (off + (length s - length r')) p' r')"
      have f: "full = (pre @ u) @ r'" "off + (length s - length r') = length (pre @ u)"
        using "1.prems" u by simp_all
      show ?thesis
        using "1.IH" Some a sh ic re f m by blast
    qed
  qed
qed

lemma tf_matches_at: "m \<in> set (tf_matches para) \<Longrightarrow> tf_match_at (full_text para) m"
  using finditer_from_true_false_gen [of True rx_true_false "full_text para" "[]" "full_text para" 0 m None]
  by (simp add: tf_matches_def finditer_def)



text \<open>The result of the parse when the pattern matches, in terms of the loop over the parts.\<close>

lemma parse_true_false_last_match:
  assumes "tf_matches para \<noteq> []"
  shows "tf_match_at (full_text para) (last (tf_matches para))"
    and "parse_true_false_from_runs para =
        Some (strip (take (m_start (last (tf_matches para))) (full_text para)),
              if bold_at (extract_text_with_formatting para) 0 (m_start (last (tf_matches para)))
              then lower (m_text (last (tf_matches para)))
              else if lower (m_text (last (tf_matches para))) = ''true'' then ''false''
              else ''true'')"
proof -
  from assms have "last (tf_matches para) \<in> set (tf_matches para)"
    by simp
  from tf_matches_at [OF this] show m: "tf_match_at (full_text para) (last (tf_matches para))" .
  then have "group (last (tf_matches para)) 1 = Some (m_text (last (tf_matches para)))"
    by (simp add: tf_match_at_def)
  with assms show "parse_true_false_from_runs para =
        Some (strip (take (m_start (last (tf_matches para))) (full_text para)),
              if bold_at (extract_text_with_formatting para) 0 (m_start (last (tf_matches para)))
              then lower (m_text (last (tf_matches para)))
              else if lower (m_text (last (tf_matches para))) = ''true'' then ''false''
              else ''true'')"
    by (simp add: parse_true_false_from_runs_def Let_def)
qed

section \<open>The last whole-word token\<close>































text \<open>
  C10. When the pattern matches and the text before the last match is empty after
  stripping, which is so when the paragraph holds nothing but the token, the parse gives
  the empty question text together with an answer, and the turn of the pass appends no
  question for the paragraph, whatever the state of the pass and whether the token is
  bold or not.
\<close>

theorem C10_token_only_paragraph_gives_no_question:
  assumes "tf_matches para \<noteq> []"
    and "strip (take (m_start (last (tf_matches para))) (full_text para)) = []"
  shows "(\<exists>a. parse_true_false_from_runs para = Some ([], a) \<and> (a = ''true'' \<or> a = ''false''))
    \<and> true_false_questions (tf_conv (tf_step st para)) = true_false_questions (tf_conv st)"
proof -
  from parse_true_false_last_match(1) [OF assms(1)]
  have "lower (m_text (last (tf_matches para))) = ''true''
        \<or> lower (m_text (last (tf_matches para))) = ''false''"
    by (simp add: tf_match_at_def)
  with parse_true_false_last_match(2) [OF assms(1)] assms(2) obtain a where
    p: "parse_true_false_from_runs para = Some ([], a)" and a: "a = ''true'' \<or> a = ''false''"
    by auto
  from p have "true_false_questions (tf_conv (tf_step st para)) = true_false_questions (tf_conv st)"
    by (simp add: tf_step_def Let_def)
  with p a show ?thesis by blast
qed

theorem C10_only_true_witness:
  "tf_matches only_true \<noteq> []
   \<and> strip (take (m_start (last (tf_matches only_true))) (full_text only_true)) = []
   \<and> is_true_false_question (strip (para_text only_true))
   \<and> parse_true_false_from_runs only_true = Some ([], ''true'')
   \<and> true_false_questions
       (tf_conv (tf_step \<lparr>in_true_false_section = True, tf_conv = reset\<rparr> only_true)) = []"
proof -
  have h1: "tf_matches only_true \<noteq> []"
    by code_simp
  have h2: "strip (take (m_start (last (tf_matches only_true))) (full_text only_true)) = []"
    by code_simp
  have q: "is_true_false_question (strip (para_text only_true))"
    by code_simp
  have r: "parse_true_false_from_runs only_true = Some ([], ''true'')"
    by code_simp
  show ?thesis
    using C10_token_only_paragraph_gives_no_question
            [OF h1 h2, of "\<lparr>in_true_false_section = True, tf_conv = reset\<rparr>"] h1 h2 q r
    by (simp add: reset_def)
qed

end
